theory Spec2Isabelle
  imports Main
begin

section \<open>Token lifecycle of the auth service\<close>

text \<open>
  The development embeds \<^verbatim>\<open>controllers/authController.js\<close> (signup, login, refresh,
  logout and the two token generators) and \<^verbatim>\<open>middleware/validateToken.js\<close>.
  Handlers are pure functions of everything the JavaScript reads: the environment
  (\<^verbatim>\<open>process.env\<close>), the clock in seconds, the outcome of each \<^verbatim>\<open>pool.query\<close> call, the
  database tables and the request. They return the HTTP response together with the
  tables as the handler leaves them.
\<close>

subsection \<open>JavaScript values\<close>

text \<open>
  A request field or header is a string or absent (\<^verbatim>\<open>undefined\<close>). The test \<^verbatim>\<open>!v\<close> holds for
  \<^verbatim>\<open>undefined\<close> and for the empty string. JSON values of other types in a field are
  left out.
\<close>

definition falsy :: "string option \<Rightarrow> bool" where
  "falsy v = (case v of None \<Rightarrow> True | Some s \<Rightarrow> s = [])"

text \<open>\<^verbatim>\<open>s.split(d)\<close> for a one-character separator: empty pieces are kept.\<close>

fun split :: "char \<Rightarrow> string \<Rightarrow> string list" where
  "split d [] = [[]]"
| "split d (c # cs) =
     (if c = d then [] # split d cs
      else (case split d cs of
              [] \<Rightarrow> [[c]]
            | w # ws \<Rightarrow> (c # w) # ws))"

text \<open>\<^verbatim>\<open>xs[i]\<close> on an array: \<^verbatim>\<open>undefined\<close> out of range.\<close>

definition index :: "'a list \<Rightarrow> nat \<Rightarrow> 'a option" where
  "index xs i = (if i < length xs then Some (xs ! i) else None)"

type_synonym body = "string \<rightharpoonup> string"

subsection \<open>Exceptions and responses\<close>

text \<open>
  The \<^verbatim>\<open>catch\<close> blocks look only at \<^verbatim>\<open>error.name\<close>: the two names of the jsonwebtoken
  package they test for, and everything else (a rejected \<^verbatim>\<open>pool.query\<close> among them).
\<close>

datatype exn = JsonWebTokenError | TokenExpiredError | OtherError

datatype user_view = UserView nat string string string
  \<comment> \<open>\<^verbatim>\<open>{ id, email, firstName, lastName }\<close>\<close>

datatype json =
    ErrorJson string  \<comment> \<open>\<^verbatim>\<open>{ error }\<close>\<close>
  | MessageJson string  \<comment> \<open>\<^verbatim>\<open>{ message }\<close>\<close>
  | AccessJson string  \<comment> \<open>\<^verbatim>\<open>{ accessToken }\<close>\<close>
  | SessionJson string user_view string string
      \<comment> \<open>\<^verbatim>\<open>{ message, user, accessToken, refreshToken }\<close>\<close>

record response =
  status :: nat
  json :: json

definition res :: "nat \<Rightarrow> json \<Rightarrow> response" where
  "res code j = \<lparr>status = code, json = j\<rparr>"

subsection \<open>The jsonwebtoken package, symbolically\<close>

text \<open>
  \<^verbatim>\<open>jwt.sign\<close> and \<^verbatim>\<open>jwt.verify\<close> belong to a package outside the repository. They are
  modelled with perfect cryptography: a token is an encoding of its claims together with
  the secret it was signed under, and a signature verifies exactly under that secret.
  The wire format is a stand-in for the base64url text of a real token (numbers in unary,
  each closed by a dot); like the real one it is never empty and holds no space.
  Times are seconds; \<^verbatim>\<open>expiresIn\<close> is a number of seconds. The environment is taken as
  configured, so that \<^verbatim>\<open>jwt.sign\<close> returns.
\<close>

record identity =
  userId :: nat
  email :: string

record jwt_payload = identity +
  iat :: nat
  exp :: nat

definition unary :: "nat \<Rightarrow> string" where
  "unary n = replicate n CHR ''1'' @ ''.''"

definition enc_nats :: "nat list \<Rightarrow> string" where
  "enc_nats ns = concat (map unary ns)"

fun dec_nats :: "nat \<Rightarrow> string \<Rightarrow> nat list option" where
  "dec_nats run [] = (if run = 0 then Some [] else None)"
| "dec_nats run (c # cs) =
     (if c = CHR ''1'' then dec_nats (Suc run) cs
      else if c = CHR ''.'' then map_option ((#) run) (dec_nats 0 cs)
      else None)"

definition encode_jwt :: "jwt_payload \<Rightarrow> string \<Rightarrow> string" where
  "encode_jwt p secret =
     enc_nats (userId p # iat p # exp p # length (email p) #
               map of_char (email p) @ map of_char secret)"

definition decode_jwt :: "string \<Rightarrow> (jwt_payload \<times> string) option" where
  "decode_jwt t =
     (case dec_nats 0 t of
        Some (u # i # e # n # rest) \<Rightarrow>
          if n \<le> length rest
          then Some (\<lparr>userId = u, email = map char_of (take n rest), iat = i, exp = e\<rparr>,
                     map char_of (drop n rest))
          else None
      | _ \<Rightarrow> None)"

text \<open>\<^verbatim>\<open>jwt.sign({ userId, email }, secret, { expiresIn })\<close> at time \<open>now\<close>.\<close>

definition jwt_sign :: "identity \<Rightarrow> string \<Rightarrow> nat \<Rightarrow> nat \<Rightarrow> string" where
  "jwt_sign who secret expiresIn now =
     encode_jwt \<lparr>userId = userId who, email = email who,
                 iat = now, exp = now + expiresIn\<rparr> secret"

text \<open>
  \<^verbatim>\<open>jwt.verify(token, secret)\<close> at time \<open>now\<close>: a token that does not parse or whose
  signature does not match throws \<^verbatim>\<open>JsonWebTokenError\<close>; only then is the expiry
  looked at, and \<open>now \<ge> exp\<close> throws \<^verbatim>\<open>TokenExpiredError\<close>.
\<close>

definition jwt_verify :: "string \<Rightarrow> string \<Rightarrow> nat \<Rightarrow> exn + jwt_payload" where
  "jwt_verify t secret now =
     (case decode_jwt t of
        None \<Rightarrow> Inl JsonWebTokenError
      | Some (p, signed_with) \<Rightarrow>
          if signed_with = secret
          then (if exp p \<le> now then Inl TokenExpiredError else Inr p)
          else Inl JsonWebTokenError)"

subsection \<open>Environment, bcrypt and the database\<close>

record env =
  JWT_SECRET :: string
  JWT_EXPIRES_IN :: nat
  JWT_REFRESH_SECRET :: string
  JWT_REFRESH_EXPIRES_IN :: nat

text \<open>
  The bcrypt package is a parameter of the handlers that hash or compare; both calls are
  taken to return.
\<close>

record bcrypt =
  bcrypt_hash :: "string \<Rightarrow> nat \<Rightarrow> string"
  bcrypt_compare :: "string \<Rightarrow> string \<Rightarrow> bool"

text \<open>
  The tables, with the columns the queries name. \<^verbatim>\<open>users.id\<close> is generated by the
  database; a sequence stands for it. The schema is not part of the sources: no
  constraint is modelled, and a violated one is a query that rejects.
\<close>

record user_row =
  u_id :: nat
  u_email :: string
  u_password :: string
  u_first_name :: string
  u_last_name :: string

record token_row =
  user_id :: nat
  token :: string

record db =
  users :: "user_row list"
  users_id_seq :: nat
  refresh_tokens :: "token_row list"

text \<open>
  \<^verbatim>\<open>await pool.query(...)\<close> either yields the rows or rejects. \<open>fault i\<close> says that the
  \<open>i\<close>-th query of the request (counted from 0) rejects.
\<close>

type_synonym faults = "nat \<Rightarrow> bool"

definition pool_query :: "faults \<Rightarrow> nat \<Rightarrow> 'a \<Rightarrow> exn + 'a" where
  "pool_query fault i rows = (if fault i then Inl OtherError else Inr rows)"

text \<open>\<^verbatim>\<open>SELECT * FROM users WHERE email = $1\<close>\<close>

definition select_users :: "db \<Rightarrow> string \<Rightarrow> user_row list" where
  "select_users d e = filter (\<lambda>u. u_email u = e) (users d)"

text \<open>\<^verbatim>\<open>INSERT INTO users (email, password, first_name, last_name) ... RETURNING ...\<close>\<close>

definition insert_user :: "db \<Rightarrow> string \<Rightarrow> string \<Rightarrow> string \<Rightarrow> string \<Rightarrow> user_row \<times> db" where
  "insert_user d e pw fn ln =
     (let row = \<lparr>u_id = users_id_seq d, u_email = e, u_password = pw,
                 u_first_name = fn, u_last_name = ln\<rparr>
      in (row, d\<lparr>users := users d @ [row], users_id_seq := Suc (users_id_seq d)\<rparr>))"

text \<open>\<^verbatim>\<open>INSERT INTO refresh_tokens (user_id, token) VALUES ($1, $2)\<close>\<close>

definition insert_token :: "db \<Rightarrow> nat \<Rightarrow> string \<Rightarrow> db" where
  "insert_token d uid t =
     d\<lparr>refresh_tokens := refresh_tokens d @ [\<lparr>user_id = uid, token = t\<rparr>]\<rparr>"

text \<open>\<^verbatim>\<open>SELECT * FROM refresh_tokens WHERE token = $1 AND user_id = $2\<close>\<close>

definition select_tokens :: "db \<Rightarrow> string \<Rightarrow> nat \<Rightarrow> token_row list" where
  "select_tokens d t uid = filter (\<lambda>r. token r = t \<and> user_id r = uid) (refresh_tokens d)"

text \<open>\<^verbatim>\<open>DELETE FROM refresh_tokens WHERE token = $1\<close>\<close>

definition delete_tokens :: "db \<Rightarrow> string \<Rightarrow> db" where
  "delete_tokens d t = d\<lparr>refresh_tokens := filter (\<lambda>r. token r \<noteq> t) (refresh_tokens d)\<rparr>"

subsection \<open>authController.js\<close>

definition generateAccessToken :: "env \<Rightarrow> nat \<Rightarrow> nat \<Rightarrow> string \<Rightarrow> string" where
  "generateAccessToken ev now uid e =
     jwt_sign \<lparr>userId = uid, email = e\<rparr> (JWT_SECRET ev) (JWT_EXPIRES_IN ev) now"

definition generateRefreshToken :: "env \<Rightarrow> nat \<Rightarrow> nat \<Rightarrow> string \<Rightarrow> string" where
  "generateRefreshToken ev now uid e =
     jwt_sign \<lparr>userId = uid, email = e\<rparr> (JWT_REFRESH_SECRET ev) (JWT_REFRESH_EXPIRES_IN ev) now"

definition internal_error :: response where
  "internal_error = res 500 (ErrorJson ''Internal server error'')"

definition user_json :: "user_row \<Rightarrow> user_view" where
  "user_json u = UserView (u_id u) (u_email u) (u_first_name u) (u_last_name u)"

definition signup :: "bcrypt \<Rightarrow> env \<Rightarrow> nat \<Rightarrow> faults \<Rightarrow> db \<Rightarrow> body \<Rightarrow> response \<times> db" where
  "signup bc ev now fault d b =
     (if falsy (b ''email'') \<or> falsy (b ''password'') \<or>
         falsy (b ''firstName'') \<or> falsy (b ''lastName'')
      then (res 400 (ErrorJson ''All fields are required''), d)
      else
        case pool_query fault 0 (select_users d (the (b ''email''))) of
          Inl err \<Rightarrow> (internal_error, d)
        | Inr userExists \<Rightarrow>
            if length userExists > 0
            then (res 409 (ErrorJson ''User already exists''), d)
            else
              let hashedPassword = bcrypt_hash bc (the (b ''password'')) 10
              in case pool_query fault 1
                        (insert_user d (the (b ''email'')) hashedPassword
                           (the (b ''firstName'')) (the (b ''lastName''))) of
                   Inl err \<Rightarrow> (internal_error, d)
                 | Inr (user, d1) \<Rightarrow>
                     let accessToken = generateAccessToken ev now (u_id user) (u_email user);
                         refreshToken = generateRefreshToken ev now (u_id user) (u_email user)
                     in case pool_query fault 2 (insert_token d1 (u_id user) refreshToken) of
                          Inl err \<Rightarrow> (internal_error, d1)
                        | Inr d2 \<Rightarrow>
                            (res 201 (SessionJson ''User created successfully'' (user_json user)
                                        accessToken refreshToken), d2))"

definition login :: "bcrypt \<Rightarrow> env \<Rightarrow> nat \<Rightarrow> faults \<Rightarrow> db \<Rightarrow> body \<Rightarrow> response \<times> db" where
  "login bc ev now fault d b =
     (if falsy (b ''email'') \<or> falsy (b ''password'')
      then (res 400 (ErrorJson ''Email and password are required''), d)
      else
        case pool_query fault 0 (select_users d (the (b ''email''))) of
          Inl err \<Rightarrow> (internal_error, d)
        | Inr rows \<Rightarrow>
            (case rows of
               [] \<Rightarrow> (res 401 (ErrorJson ''Invalid credentials''), d)
             | user # others \<Rightarrow>
                 if bcrypt_compare bc (the (b ''password'')) (u_password user)
                 then
                   let accessToken = generateAccessToken ev now (u_id user) (u_email user);
                       refreshToken = generateRefreshToken ev now (u_id user) (u_email user)
                   in case pool_query fault 1 (insert_token d (u_id user) refreshToken) of
                        Inl err \<Rightarrow> (internal_error, d)
                      | Inr d1 \<Rightarrow>
                          (res 200 (SessionJson ''Login successful'' (user_json user)
                                      accessToken refreshToken), d1)
                 else (res 401 (ErrorJson ''Invalid credentials''), d)))"

definition refresh_catch :: "exn \<Rightarrow> response" where
  "refresh_catch err =
     (if err = JsonWebTokenError \<or> err = TokenExpiredError
      then res 401 (ErrorJson ''Invalid or expired refresh token'')
      else internal_error)"

definition refresh :: "env \<Rightarrow> nat \<Rightarrow> faults \<Rightarrow> db \<Rightarrow> body \<Rightarrow> response \<times> db" where
  "refresh ev now fault d b =
     (let refreshToken = b ''refreshToken'' in
      if falsy refreshToken
      then (res 401 (ErrorJson ''Refresh token required''), d)
      else
        case jwt_verify (the refreshToken) (JWT_REFRESH_SECRET ev) now of
          Inl err \<Rightarrow> (refresh_catch err, d)
        | Inr decoded \<Rightarrow>
            (case pool_query fault 0
                    (select_tokens d (the refreshToken) (userId decoded)) of
               Inl err \<Rightarrow> (refresh_catch err, d)
             | Inr tokenExists \<Rightarrow>
                 if length tokenExists = 0
                 then (res 401 (ErrorJson ''Invalid refresh token''), d)
                 else (res 200 (AccessJson
                         (generateAccessToken ev now (userId decoded) (email decoded))), d)))"

definition logout :: "faults \<Rightarrow> db \<Rightarrow> body \<Rightarrow> response \<times> db" where
  "logout fault d b =
     (let refreshToken = b ''refreshToken'' in
      if falsy refreshToken
      then (res 400 (ErrorJson ''Refresh token required''), d)
      else
        case pool_query fault 0 (delete_tokens d (the refreshToken)) of
          Inl err \<Rightarrow> (internal_error, d)
        | Inr d' \<Rightarrow> (res 200 (MessageJson ''Logout successful''), d'))"

subsection \<open>middleware/validateToken.js\<close>

text \<open>
  The middleware either ends the request with a response or sets \<^verbatim>\<open>req.user\<close> and calls
  \<^verbatim>\<open>next()\<close>. It reads the Authorization header, \<^verbatim>\<open>JWT_SECRET\<close> and the clock; the file
  does not import the pool, so the tables are no argument.
\<close>

datatype guard = Responded response | Next identity

definition validate_catch :: "exn \<Rightarrow> response" where
  "validate_catch err =
     (if err = JsonWebTokenError then res 401 (ErrorJson ''Invalid token'')
      else if err = TokenExpiredError then res 401 (ErrorJson ''Token expired'')
      else internal_error)"

definition validateToken :: "env \<Rightarrow> nat \<Rightarrow> string option \<Rightarrow> guard" where
  "validateToken ev now authHeader =
     (if falsy authHeader
      then Responded (res 401 (ErrorJson ''Access token required''))
      else
        let token = index (split CHR '' '' (the authHeader)) 1 in
        if falsy token
        then Responded (res 401 (ErrorJson ''Invalid token format''))
        else
          case jwt_verify (the token) (JWT_SECRET ev) now of
            Inl err \<Rightarrow> Responded (validate_catch err)
          | Inr decoded \<Rightarrow> Next \<lparr>userId = userId decoded, email = email decoded\<rparr>)"

subsection \<open>A concrete deployment\<close>

text \<open>
  One environment (15 minutes and 7 days, as the comments of the generators say), a
  bcrypt stand-in, and the tables after subject 42 has obtained a session at time 0.
\<close>

definition example_env :: env where
  "example_env = \<lparr>JWT_SECRET = ''access-secret'', JWT_EXPIRES_IN = 900,
                   JWT_REFRESH_SECRET = ''refresh-secret'', JWT_REFRESH_EXPIRES_IN = 604800\<rparr>"

definition example_bcrypt :: bcrypt where
  "example_bcrypt = \<lparr>bcrypt_hash = (\<lambda>pw rounds. ''$2b$'' @ pw),
                      bcrypt_compare = (\<lambda>pw hashed. hashed = ''$2b$'' @ pw)\<rparr>"

definition no_fault :: faults where
  "no_fault i = False"

definition alice :: user_row where
  "alice = \<lparr>u_id = 42, u_email = ''a@x.com'', u_password = ''$2b$secret'',
             u_first_name = ''Alice'', u_last_name = ''Doe''\<rparr>"

definition A1 :: string where
  "A1 = generateAccessToken example_env 0 42 ''a@x.com''"

definition R1 :: string where
  "R1 = generateRefreshToken example_env 0 42 ''a@x.com''"

definition example_db :: db where
  "example_db = \<lparr>users = [alice], users_id_seq = 43,
                  refresh_tokens = [\<lparr>user_id = 42, token = R1\<rparr>]\<rparr>"

text \<open>A request in which exactly the \<open>k\<close>-th query rejects.\<close>

definition fault_at :: "nat \<Rightarrow> faults" where
  "fault_at k i = (i = k)"

definition login_body :: body where
  "login_body = [''email'' \<mapsto> ''a@x.com'', ''password'' \<mapsto> ''secret'']"

definition signup_body :: body where
  "signup_body = [''email'' \<mapsto> ''b@x.com'', ''password'' \<mapsto> ''hunter2'',
                  ''firstName'' \<mapsto> ''Bob'', ''lastName'' \<mapsto> ''Roe'']"

definition bob :: user_row where
  "bob = \<lparr>u_id = 43, u_email = ''b@x.com'', u_password = ''$2b$hunter2'',
           u_first_name = ''Bob'', u_last_name = ''Roe''\<rparr>"


section \<open>Properties\<close>

subsection \<open>The token format\<close>

lemma dec_nats_unary:
  "dec_nats run (unary n @ rest) = map_option ((#) (run + n)) (dec_nats 0 rest)"
  by (induction n arbitrary: run) (simp_all add: unary_def)

lemma dec_enc_nats: "dec_nats 0 (enc_nats ns) = Some ns"
  by (induction ns) (simp_all add: enc_nats_def dec_nats_unary)

lemma map_char_of_char: "map char_of (map (of_char :: char \<Rightarrow> nat) s) = s"
  by (induction s) simp_all

lemma decode_encode_jwt: "decode_jwt (encode_jwt p secret) = Some (p, secret)"
  by (simp add: decode_jwt_def encode_jwt_def dec_enc_nats map_char_of_char)

lemma space_enc_nats: "CHR '' '' \<notin> set (enc_nats ns)"
  by (induction ns) (auto simp: enc_nats_def unary_def)

lemma enc_nats_nonempty: "ns \<noteq> [] \<Longrightarrow> enc_nats ns \<noteq> []"
  by (cases ns) (auto simp: enc_nats_def unary_def)

lemma jwt_sign_nonempty: "jwt_sign who k ttl now \<noteq> []"
  by (simp add: jwt_sign_def encode_jwt_def enc_nats_nonempty)

lemma jwt_sign_no_space: "CHR '' '' \<notin> set (jwt_sign who k ttl now)"
  by (simp add: jwt_sign_def encode_jwt_def space_enc_nats)

text \<open>
  What \<^verbatim>\<open>jwt.verify\<close> says of a token made by \<^verbatim>\<open>jwt.sign\<close>: the signature is checked
  before the expiry.
\<close>

lemma jwt_verify_sign:
  "jwt_verify (jwt_sign who k ttl now) k' now' =
     (if k = k'
      then (if now + ttl \<le> now' then Inl TokenExpiredError
            else Inr \<lparr>userId = userId who, email = email who, iat = now, exp = now + ttl\<rparr>)
      else Inl JsonWebTokenError)"
  by (simp add: jwt_verify_def jwt_sign_def decode_encode_jwt)

lemma jwt_verify_exn:
  "jwt_verify t k now = Inl err \<Longrightarrow> err = JsonWebTokenError \<or> err = TokenExpiredError"
  by (auto simp: jwt_verify_def split: option.splits if_splits prod.splits)

subsection \<open>Splitting the Authorization header\<close>

lemma split_no_sep: "d \<notin> set s \<Longrightarrow> split d s = [s]"
  by (induction s) auto

lemma split_append: "d \<notin> set s \<Longrightarrow> split d (s @ d # t) = s # split d t"
  by (induction s) auto

lemma split_not_Nil: "split d s \<noteq> []"
  by (induction s) (auto split: list.splits)

lemma hd_split: "hd (split d s) = takeWhile (\<lambda>c. c \<noteq> d) s"
  by (induction s) (auto simp: split_not_Nil split: list.splits)

lemma header_token:
  assumes "CHR '' '' \<notin> set scheme"
  shows "index (split CHR '' '' (scheme @ CHR '' '' # rest)) 1 =
           Some (takeWhile (\<lambda>c. c \<noteq> CHR '' '') rest)"
proof -
  have "split CHR '' '' rest \<noteq> []" by (rule split_not_Nil)
  then obtain w ws where w: "split CHR '' '' rest = w # ws" by (cases "split CHR '' '' rest") auto
  with hd_split [of "CHR '' ''" rest] have "w = takeWhile (\<lambda>c. c \<noteq> CHR '' '') rest" by simp
  with w assms show ?thesis by (simp add: split_append index_def)
qed

lemma takeWhile_all: "d \<notin> set t \<Longrightarrow> takeWhile (\<lambda>c. c \<noteq> d) t = t"
  by (induction t) auto

subsection \<open>Facts about the concrete deployment\<close>

lemma verify_R1:
  "jwt_verify R1 (JWT_REFRESH_SECRET example_env) 60 =
     Inr \<lparr>userId = 42, email = ''a@x.com'', iat = 0, exp = 604800\<rparr>"
  by (simp add: R1_def generateRefreshToken_def jwt_verify_sign example_env_def)

lemma R1_nonempty: "R1 \<noteq> []"
  by (simp add: R1_def generateRefreshToken_def jwt_sign_nonempty)

lemma no_fault_0: "\<not> no_fault 0"
  by (simp add: no_fault_def)

subsection \<open>Renewal\<close>

lemma jwt_verify_empty: "jwt_verify [] k now = Inl JsonWebTokenError"
  by (simp add: jwt_verify_def decode_jwt_def)

lemma jwt_verify_later:
  "jwt_verify t k now = Inr p \<Longrightarrow>
   jwt_verify t k now' = (if exp p \<le> now' then Inl TokenExpiredError else Inr p)"
  by (auto simp: jwt_verify_def split: option.splits if_splits prod.splits)

lemma select_tokens_empty:
  "(select_tokens d t uid = []) = (\<not> (\<exists>row \<in> set (refresh_tokens d). token row = t \<and> user_id row = uid))"
  by (auto simp: select_tokens_def filter_empty_conv)

lemma refresh_verified:
  assumes "b ''refreshToken'' = Some t" and "jwt_verify t (JWT_REFRESH_SECRET ev) now = Inr p"
      and "\<not> fault 0"
  shows "refresh ev now fault d b =
           (if \<exists>row \<in> set (refresh_tokens d). token row = t \<and> user_id row = userId p
            then (res 200 (AccessJson (generateAccessToken ev now (userId p) (email p))), d)
            else (res 401 (ErrorJson ''Invalid refresh token''), d))"
proof -
  from assms(2) have "t \<noteq> []" by (auto simp: jwt_verify_empty)
  with assms have "refresh ev now fault d b =
      (if select_tokens d t (userId p) = []
       then (res 401 (ErrorJson ''Invalid refresh token''), d)
       else (res 200 (AccessJson (generateAccessToken ev now (userId p) (email p))), d))"
    by (simp add: refresh_def Let_def falsy_def pool_query_def)
  then show ?thesis
    by (cases "\<exists>row \<in> set (refresh_tokens d). token row = t \<and> user_id row = userId p")
       (auto simp: select_tokens_empty)
qed

lemma refresh_unverified:
  assumes "b ''refreshToken'' = Some t" and "jwt_verify t (JWT_REFRESH_SECRET ev) now = Inl err"
  shows "refresh ev now fault d b =
           (res 401 (ErrorJson (if t = [] then ''Refresh token required''
                                else ''Invalid or expired refresh token'')), d)"
  using assms jwt_verify_exn [OF assms(2)]
  by (auto simp: refresh_def Let_def falsy_def refresh_catch_def)

lemma refresh_200:
  assumes "refresh ev now fault d b = (r, d')" and "status r = 200"
  shows "\<exists>t p. b ''refreshToken'' = Some t \<and> jwt_verify t (JWT_REFRESH_SECRET ev) now = Inr p \<and>
           \<not> fault 0 \<and> (\<exists>row \<in> set (refresh_tokens d). token row = t \<and> user_id row = userId p) \<and>
           r = res 200 (AccessJson (generateAccessToken ev now (userId p) (email p))) \<and> d' = d"
proof -
  from assms have nf: "\<not> falsy (b ''refreshToken'')"
    by (auto simp: refresh_def Let_def res_def)
  then obtain t where t: "b ''refreshToken'' = Some t" by (auto simp: falsy_def split: option.splits)
  show ?thesis
  proof (cases "jwt_verify t (JWT_REFRESH_SECRET ev) now")
    case (Inl err)
    from refresh_unverified [where b = b and t = t and fault = fault and d = d, OF t Inl] assms show ?thesis
      by (auto simp: res_def)
  next
    case (Inr p)
    have "\<not> fault 0"
    proof
      assume "fault 0"
      with t nf Inr assms show False
        by (auto simp: refresh_def Let_def pool_query_def refresh_catch_def internal_error_def
              res_def)
    qed
    with refresh_verified [where b = b and t = t and fault = fault and ev = ev and now = now and p = p and d = d] assms t Inr show ?thesis
      by (auto simp: res_def split: if_splits)
  qed
qed

subsection \<open>Revocation\<close>




subsection \<open>The guard on a well-shaped header\<close>

text \<open>
  With a first word free of spaces and a token free of spaces, the token is what the
  middleware hands to \<^verbatim>\<open>jwt.verify\<close>. The first word itself is never looked at.
\<close>

lemma validateToken_scheme:
  assumes "CHR '' '' \<notin> set scheme" and "CHR '' '' \<notin> set t" and "t \<noteq> []"
  shows "validateToken ev now (Some (scheme @ CHR '' '' # t)) =
           (case jwt_verify t (JWT_SECRET ev) now of
              Inl err \<Rightarrow> Responded (validate_catch err)
            | Inr decoded \<Rightarrow> Next \<lparr>userId = userId decoded, email = email decoded\<rparr>)"
proof -
  have "index (split CHR '' '' (scheme @ CHR '' '' # t)) 1 = Some t"
    using header_token [OF assms(1), of t] takeWhile_all [OF assms(2)] by simp
  with assms(3) show ?thesis
    unfolding validateToken_def Let_def by (simp add: falsy_def)
qed

lemma guard_accepts_access_token:
  assumes "CHR '' '' \<notin> set scheme" and "now' < now + JWT_EXPIRES_IN ev"
  shows "validateToken ev now' (Some (scheme @ CHR '' '' # generateAccessToken ev now uid e)) =
           Next \<lparr>userId = uid, email = e\<rparr>"
  using assms
  by (simp add: validateToken_scheme generateAccessToken_def jwt_sign_no_space jwt_sign_nonempty
        jwt_verify_sign)

subsection \<open>What a session response holds\<close>

lemma login_session:
  assumes "login bc ev now fault d b = (r, d')"
      and "json r = SessionJson msg (UserView uid e fn ln) a t"
  shows "a = generateAccessToken ev now uid e \<and> t = generateRefreshToken ev now uid e \<and>
         d' = insert_token d uid t \<and> status r = 200"
  using assms
  by (auto simp: login_def Let_def res_def internal_error_def pool_query_def user_json_def
        split: if_splits list.splits)

lemma signup_session:
  assumes "signup bc ev now fault d b = (r, d')"
      and "json r = SessionJson msg (UserView uid e fn ln) a t"
  shows "a = generateAccessToken ev now uid e \<and> t = generateRefreshToken ev now uid e \<and>
         status r = 201 \<and> refresh_tokens d' = refresh_tokens d @ [\<lparr>user_id = uid, token = t\<rparr>]"
  using assms
  by (auto simp: signup_def Let_def res_def internal_error_def pool_query_def user_json_def
        insert_user_def insert_token_def
        split: if_splits list.splits)

text \<open>
  Claim C2. An access token minted at time \<open>now\<close> for an identity (subject id, email)
  and presented as \<^verbatim>\<open>Bearer <token>\<close> at any time before \<open>now + JWT_EXPIRES_IN\<close>,
  under the same environment, passes the guard, which attaches exactly that identity;
  and the access token in a session response of login or signup is that token, minted
  for the id and email the response shows.
\<close>

theorem issue_then_guard:
  assumes "now' < now + JWT_EXPIRES_IN ev"
  shows "validateToken ev now' (Some (''Bearer '' @ generateAccessToken ev now uid e)) =
           Next \<lparr>userId = uid, email = e\<rparr> \<and>
         (\<forall>bc fault d b r d' msg fn ln a t.
            (login bc ev now fault d b = (r, d') \<or> signup bc ev now fault d b = (r, d')) \<and>
            json r = SessionJson msg (UserView uid e fn ln) a t \<longrightarrow>
            a = generateAccessToken ev now uid e)"
proof -
  have "validateToken ev now' (Some (''Bearer'' @ CHR '' '' # generateAccessToken ev now uid e)) =
           Next \<lparr>userId = uid, email = e\<rparr>"
    using assms by (intro guard_accepts_access_token) simp_all
  then show ?thesis
    by (auto dest: login_session signup_session)
qed

text \<open>Subject 42 logs in at time 0 and the token is shown at second 899.\<close>

lemma example_login:
  "login example_bcrypt example_env 0 no_fault example_db
       [''email'' \<mapsto> ''a@x.com'', ''password'' \<mapsto> ''secret''] =
     (res 200 (SessionJson ''Login successful'' (UserView 42 ''a@x.com'' ''Alice'' ''Doe'') A1 R1),
      insert_token example_db 42 R1)"
  by (simp add: login_def falsy_def pool_query_def no_fault_def select_users_def example_db_def
        alice_def example_bcrypt_def user_json_def A1_def R1_def Let_def)

theorem issue_then_guard_witness:
  "(899::nat) < 0 + JWT_EXPIRES_IN example_env \<and>
   login example_bcrypt example_env 0 no_fault example_db
       [''email'' \<mapsto> ''a@x.com'', ''password'' \<mapsto> ''secret''] =
     (res 200 (SessionJson ''Login successful'' (UserView 42 ''a@x.com'' ''Alice'' ''Doe'') A1 R1),
      insert_token example_db 42 R1) \<and>
   validateToken example_env 899 (Some (''Bearer '' @ A1)) =
     Next \<lparr>userId = 42, email = ''a@x.com''\<rparr>"
proof -
  have h: "(899::nat) < 0 + JWT_EXPIRES_IN example_env" by (simp add: example_env_def)
  have j: "json (res 200 (SessionJson ''Login successful''
              (UserView 42 ''a@x.com'' ''Alice'' ''Doe'') A1 R1)) =
           SessionJson ''Login successful'' (UserView 42 ''a@x.com'' ''Alice'' ''Doe'') A1 R1"
    by (simp add: res_def)
  from issue_then_guard [OF h, of 42 "''a@x.com''"] example_login j
  have "A1 = generateAccessToken example_env 0 42 ''a@x.com''" by blast
  with issue_then_guard [OF h, of 42 "''a@x.com''"] h example_login show ?thesis by simp
qed

subsection \<open>Renewal, outcome by outcome\<close>

text \<open>
  Claim C3. For a presented refresh token \<open>t\<close>: when \<^verbatim>\<open>jwt.verify\<close> under the refresh
  secret throws (bad signature, malformed or expired) the answer is 401 and no query
  decides it; when it yields the payload \<open>p\<close> and the query is answered, the answer is
  200 with a new access token exactly if some row of \<^verbatim>\<open>refresh_tokens\<close> has both this
  token and the subject id \<open>userId p\<close>, and 401 \<^verbatim>\<open>Invalid refresh token\<close> otherwise, so
  a row with the same token under another subject id does not count. Status 200 comes
  about in no other way. The tables are returned as they were.
\<close>

theorem refresh_outcomes:
  assumes "b ''refreshToken'' = Some t"
  shows "(\<forall>err. jwt_verify t (JWT_REFRESH_SECRET ev) now = Inl err \<longrightarrow>
            refresh ev now fault d b =
              (res 401 (ErrorJson (if t = [] then ''Refresh token required''
                                   else ''Invalid or expired refresh token'')), d)) \<and>
         (\<forall>p. jwt_verify t (JWT_REFRESH_SECRET ev) now = Inr p \<and> \<not> fault 0 \<longrightarrow>
            refresh ev now fault d b =
              (if \<exists>row \<in> set (refresh_tokens d). token row = t \<and> user_id row = userId p
               then (res 200 (AccessJson (generateAccessToken ev now (userId p) (email p))), d)
               else (res 401 (ErrorJson ''Invalid refresh token''), d))) \<and>
         ((status (fst (refresh ev now fault d b)) = 200) =
            (\<exists>p. jwt_verify t (JWT_REFRESH_SECRET ev) now = Inr p \<and> \<not> fault 0 \<and>
               (\<exists>row \<in> set (refresh_tokens d). token row = t \<and> user_id row = userId p)))"
proof (intro conjI allI impI)
  fix err assume "jwt_verify t (JWT_REFRESH_SECRET ev) now = Inl err"
  with assms show "refresh ev now fault d b =
      (res 401 (ErrorJson (if t = [] then ''Refresh token required''
                           else ''Invalid or expired refresh token'')), d)"
    by (rule refresh_unverified [where b = b and t = t])
next
  fix p assume "jwt_verify t (JWT_REFRESH_SECRET ev) now = Inr p \<and> \<not> fault 0"
  with assms show "refresh ev now fault d b =
      (if \<exists>row \<in> set (refresh_tokens d). token row = t \<and> user_id row = userId p
       then (res 200 (AccessJson (generateAccessToken ev now (userId p) (email p))), d)
       else (res 401 (ErrorJson ''Invalid refresh token''), d))"
    by (simp add: refresh_verified)
next
  show "(status (fst (refresh ev now fault d b)) = 200) =
          (\<exists>p. jwt_verify t (JWT_REFRESH_SECRET ev) now = Inr p \<and> \<not> fault 0 \<and>
             (\<exists>row \<in> set (refresh_tokens d). token row = t \<and> user_id row = userId p))"
  proof
    assume "status (fst (refresh ev now fault d b)) = 200"
    with refresh_200 [of ev now fault d b "fst (refresh ev now fault d b)"
           "snd (refresh ev now fault d b)"] assms
    show "\<exists>p. jwt_verify t (JWT_REFRESH_SECRET ev) now = Inr p \<and> \<not> fault 0 \<and>
             (\<exists>row \<in> set (refresh_tokens d). token row = t \<and> user_id row = userId p)"
      by auto
  next
    assume "\<exists>p. jwt_verify t (JWT_REFRESH_SECRET ev) now = Inr p \<and> \<not> fault 0 \<and>
             (\<exists>row \<in> set (refresh_tokens d). token row = t \<and> user_id row = userId p)"
    then obtain p where p: "jwt_verify t (JWT_REFRESH_SECRET ev) now = Inr p" "\<not> fault 0"
      "\<exists>row \<in> set (refresh_tokens d). token row = t \<and> user_id row = userId p" by blast
    from refresh_verified [where b = b and t = t and fault = fault and ev = ev and now = now and p = p and d = d] assms p
    show "status (fst (refresh ev now fault d b)) = 200" by (simp add: res_def)
  qed
qed

text \<open>
  The refresh token of subject 42: it renews while its row is there; with the row filed
  under subject 7 it does not; at its expiry it does not; and the access token, signed
  under the other secret, does not.
\<close>

lemma verify_R1_expired:
  "jwt_verify R1 (JWT_REFRESH_SECRET example_env) 604800 = Inl TokenExpiredError"
  by (simp add: R1_def generateRefreshToken_def jwt_verify_sign example_env_def)

lemma verify_A1_as_refresh:
  "jwt_verify A1 (JWT_REFRESH_SECRET example_env) 60 = Inl JsonWebTokenError"
  by (simp add: A1_def generateAccessToken_def jwt_verify_sign example_env_def)

lemma A1_nonempty: "A1 \<noteq> []"
  by (simp add: A1_def generateAccessToken_def jwt_sign_nonempty)

theorem refresh_outcomes_witness:
  "refresh example_env 60 no_fault example_db [''refreshToken'' \<mapsto> R1] =
     (res 200 (AccessJson (generateAccessToken example_env 60 42 ''a@x.com'')), example_db) \<and>
   refresh example_env 60 no_fault (example_db\<lparr>refresh_tokens := [\<lparr>user_id = 7, token = R1\<rparr>]\<rparr>)
       [''refreshToken'' \<mapsto> R1] =
     (res 401 (ErrorJson ''Invalid refresh token''),
      example_db\<lparr>refresh_tokens := [\<lparr>user_id = 7, token = R1\<rparr>]\<rparr>) \<and>
   refresh example_env 604800 no_fault example_db [''refreshToken'' \<mapsto> R1] =
     (res 401 (ErrorJson ''Invalid or expired refresh token''), example_db) \<and>
   refresh example_env 60 no_fault example_db [''refreshToken'' \<mapsto> A1] =
     (res 401 (ErrorJson ''Invalid or expired refresh token''), example_db)"
proof -
  have b: "[''refreshToken'' \<mapsto> R1] ''refreshToken'' = Some R1"
    and b': "[''refreshToken'' \<mapsto> A1] ''refreshToken'' = Some A1" by simp_all
  note ok = refresh_outcomes [where b = "[''refreshToken'' \<mapsto> R1]" and t = R1, OF b, of example_env 60 no_fault example_db]
  note other = refresh_outcomes [where b = "[''refreshToken'' \<mapsto> R1]" and t = R1, OF b,
                 of example_env 60 no_fault
                 "example_db\<lparr>refresh_tokens := [\<lparr>user_id = 7, token = R1\<rparr>]\<rparr>"]
  note late = refresh_outcomes [where b = "[''refreshToken'' \<mapsto> R1]" and t = R1, OF b, of example_env 604800 no_fault example_db]
  note wrong = refresh_outcomes [where b = "[''refreshToken'' \<mapsto> A1]" and t = A1, OF b', of example_env 60 no_fault example_db]
  have 1: "refresh example_env 60 no_fault example_db [''refreshToken'' \<mapsto> R1] =
     (res 200 (AccessJson (generateAccessToken example_env 60 42 ''a@x.com'')), example_db)"
    using ok verify_R1 no_fault_0 by (simp add: example_db_def)
  have 2: "refresh example_env 60 no_fault
       (example_db\<lparr>refresh_tokens := [\<lparr>user_id = 7, token = R1\<rparr>]\<rparr>) [''refreshToken'' \<mapsto> R1] =
     (res 401 (ErrorJson ''Invalid refresh token''),
      example_db\<lparr>refresh_tokens := [\<lparr>user_id = 7, token = R1\<rparr>]\<rparr>)"
    using other verify_R1 no_fault_0 by simp
  have 3: "refresh example_env 604800 no_fault example_db [''refreshToken'' \<mapsto> R1] =
     (res 401 (ErrorJson ''Invalid or expired refresh token''), example_db)"
    using late verify_R1_expired R1_nonempty by simp
  have 4: "refresh example_env 60 no_fault example_db [''refreshToken'' \<mapsto> A1] =
     (res 401 (ErrorJson ''Invalid or expired refresh token''), example_db)"
    using wrong verify_A1_as_refresh A1_nonempty by simp
  from 1 2 3 4 show ?thesis by simp
qed

text \<open>
  Claim C4. A refresh that answers 200 returns an access token minted at the time of
  the request for the identity in the refresh token, one the guard accepts until it
  expires, and returns the tables exactly as it found them: no row of
  \<^verbatim>\<open>refresh_tokens\<close> is added, replaced or removed. The same request therefore answers
  200 again at every later time before the expiry of the refresh token (as long as the
  query is answered), and 401 from the expiry on.
\<close>

theorem refresh_no_rotation:
  assumes "refresh ev now fault d b = (r, d')" and "status r = 200"
  shows "d' = d \<and>
         (\<exists>p. jwt_verify (the (b ''refreshToken'')) (JWT_REFRESH_SECRET ev) now = Inr p \<and>
            json r = AccessJson (generateAccessToken ev now (userId p) (email p)) \<and>
            (\<forall>t. t < now + JWT_EXPIRES_IN ev \<longrightarrow>
               validateToken ev t
                   (Some (''Bearer '' @ generateAccessToken ev now (userId p) (email p))) =
                 Next \<lparr>userId = userId p, email = email p\<rparr>) \<and>
            (\<forall>now' fault'. now' < exp p \<and> \<not> fault' 0 \<longrightarrow>
               refresh ev now' fault' d' b =
                 (res 200 (AccessJson (generateAccessToken ev now' (userId p) (email p))), d')) \<and>
            (\<forall>now' fault'. exp p \<le> now' \<longrightarrow>
               refresh ev now' fault' d' b =
                 (res 401 (ErrorJson ''Invalid or expired refresh token''), d')))"
proof -
  from refresh_200 [OF assms] obtain t p where
    t: "b ''refreshToken'' = Some t" and
    p: "jwt_verify t (JWT_REFRESH_SECRET ev) now = Inr p" and
    row: "\<exists>row \<in> set (refresh_tokens d). token row = t \<and> user_id row = userId p" and
    r: "r = res 200 (AccessJson (generateAccessToken ev now (userId p) (email p)))" and
    d': "d' = d"
    by blast
  from p have ne: "t \<noteq> []" by (auto simp: jwt_verify_empty)
  have guard: "validateToken ev u
       (Some (''Bearer '' @ generateAccessToken ev now (userId p) (email p))) =
       Next \<lparr>userId = userId p, email = email p\<rparr>" if "u < now + JWT_EXPIRES_IN ev" for u
  proof -
    have "validateToken ev u
       (Some (''Bearer'' @ CHR '' '' # generateAccessToken ev now (userId p) (email p))) =
       Next \<lparr>userId = userId p, email = email p\<rparr>"
      using that by (intro guard_accepts_access_token) simp_all
    then show ?thesis by simp
  qed
  have again: "refresh ev now' fault' d b =
       (res 200 (AccessJson (generateAccessToken ev now' (userId p) (email p))), d)"
    if "now' < exp p" and "\<not> fault' 0" for now' fault'
  proof -
    from that(1) jwt_verify_later [OF p, of now']
    have "jwt_verify t (JWT_REFRESH_SECRET ev) now' = Inr p" by simp
    with refresh_verified [where b = b and t = t and fault = fault' and ev = ev and now = now'
           and p = p and d = d] t that(2) row
    show ?thesis by simp
  qed
  have expired: "refresh ev now' fault' d b =
       (res 401 (ErrorJson ''Invalid or expired refresh token''), d)"
    if "exp p \<le> now'" for now' fault'
  proof -
    from that jwt_verify_later [OF p, of now']
    have "jwt_verify t (JWT_REFRESH_SECRET ev) now' = Inl TokenExpiredError" by simp
    with refresh_unverified [where b = b and t = t and fault = fault' and ev = ev and now = now'
           and d = d and err = TokenExpiredError] t ne
    show ?thesis by simp
  qed
  from t p r d' guard again expired show ?thesis
    by (simp add: res_def)
qed

text \<open>
  Subject 42 renews at second 60 and again at second 120 with the same refresh token;
  at second 604800 the token has expired.
\<close>

theorem refresh_no_rotation_witness:
  "refresh example_env 60 no_fault example_db [''refreshToken'' \<mapsto> R1] =
     (res 200 (AccessJson (generateAccessToken example_env 60 42 ''a@x.com'')), example_db) \<and>
   status (res 200 (AccessJson (generateAccessToken example_env 60 42 ''a@x.com''))) = 200 \<and>
   refresh example_env 120 no_fault example_db [''refreshToken'' \<mapsto> R1] =
     (res 200 (AccessJson (generateAccessToken example_env 120 42 ''a@x.com'')), example_db) \<and>
   refresh example_env 604800 no_fault example_db [''refreshToken'' \<mapsto> R1] =
     (res 401 (ErrorJson ''Invalid or expired refresh token''), example_db) \<and>
   validateToken example_env 959
       (Some (''Bearer '' @ generateAccessToken example_env 60 42 ''a@x.com'')) =
     Next \<lparr>userId = 42, email = ''a@x.com''\<rparr>"
proof -
  have first: "refresh example_env 60 no_fault example_db [''refreshToken'' \<mapsto> R1] =
     (res 200 (AccessJson (generateAccessToken example_env 60 42 ''a@x.com'')), example_db)"
    by (simp add: refresh_def falsy_def R1_nonempty verify_R1 pool_query_def no_fault_def
          select_tokens_def example_db_def)
  have st: "status (res 200 (AccessJson (generateAccessToken example_env 60 42 ''a@x.com''))) = 200"
    by (simp add: res_def)
  from refresh_no_rotation [OF first st] verify_R1
  have all: "(\<forall>t. t < 60 + JWT_EXPIRES_IN example_env \<longrightarrow>
               validateToken example_env t
                   (Some (''Bearer '' @ generateAccessToken example_env 60 42 ''a@x.com'')) =
                 Next \<lparr>userId = 42, email = ''a@x.com''\<rparr>) \<and>
            (\<forall>now' fault'. now' < 604800 \<and> \<not> fault' 0 \<longrightarrow>
               refresh example_env now' fault' example_db [''refreshToken'' \<mapsto> R1] =
                 (res 200 (AccessJson (generateAccessToken example_env now' 42 ''a@x.com'')),
                  example_db)) \<and>
            (\<forall>now' fault'. 604800 \<le> now' \<longrightarrow>
               refresh example_env now' fault' example_db [''refreshToken'' \<mapsto> R1] =
                 (res 401 (ErrorJson ''Invalid or expired refresh token''), example_db))"
    by simp
  have "(959::nat) < 60 + JWT_EXPIRES_IN example_env" by (simp add: example_env_def)
  with all first st no_fault_0 show ?thesis by simp
qed

subsection \<open>The guard, branch by branch\<close>

lemma validateToken_no_space:
  assumes "CHR '' '' \<notin> set s"
  shows "validateToken ev now (Some s) =
           Responded (res 401 (ErrorJson (if s = [] then ''Access token required''
                                          else ''Invalid token format'')))"
proof -
  have "index (split CHR '' '' s) 1 = None"
    using assms by (simp add: split_no_sep index_def)
  then show ?thesis
    unfolding validateToken_def Let_def by (simp add: falsy_def)
qed

lemma validateToken_pieces:
  assumes "CHR '' '' \<notin> set scheme"
  shows "validateToken ev now (Some (scheme @ CHR '' '' # rest)) =
           (if takeWhile (\<lambda>c. c \<noteq> CHR '' '') rest = []
            then Responded (res 401 (ErrorJson ''Invalid token format''))
            else case jwt_verify (takeWhile (\<lambda>c. c \<noteq> CHR '' '') rest) (JWT_SECRET ev) now of
                   Inl err \<Rightarrow>
                     Responded (res 401 (ErrorJson (if err = TokenExpiredError
                                                    then ''Token expired'' else ''Invalid token'')))
                 | Inr p \<Rightarrow> Next \<lparr>userId = userId p, email = email p\<rparr>)"
proof -
  have "index (split CHR '' '' (scheme @ CHR '' '' # rest)) 1 =
          Some (takeWhile (\<lambda>c. c \<noteq> CHR '' '') rest)"
    using header_token [OF assms] by simp
  then show ?thesis
    unfolding validateToken_def Let_def
    by (auto simp: falsy_def validate_catch_def dest: jwt_verify_exn split: sum.splits)
qed

text \<open>
  Claim C5, as the code has it. The guard answers 401 \<^verbatim>\<open>Access token required\<close> when the
  Authorization header is absent or empty. It answers 401 \<^verbatim>\<open>Invalid token format\<close> when
  the header holds no space, or nothing between its first space and the next one (or
  the end). Otherwise the text between the first and the second space is the token,
  whatever the first word is and whatever follows the second space: the guard answers
  401 \<^verbatim>\<open>Token expired\<close> when \<^verbatim>\<open>jwt.verify\<close> under the access secret finds the token
  expired, 401 \<^verbatim>\<open>Invalid token\<close> when it finds it malformed or wrongly signed, and
  otherwise sets \<^verbatim>\<open>req.user\<close> to the decoded userId and email and calls \<^verbatim>\<open>next()\<close>. No
  branch reads the tables: they are no argument of \<open>validateToken\<close>.
\<close>

theorem guard_outcomes:
  "(falsy h \<longrightarrow>
      validateToken ev now h = Responded (res 401 (ErrorJson ''Access token required''))) \<and>
   (h = Some s \<and> s \<noteq> [] \<and> CHR '' '' \<notin> set s \<longrightarrow>
      validateToken ev now h = Responded (res 401 (ErrorJson ''Invalid token format''))) \<and>
   (h = Some (scheme @ CHR '' '' # rest) \<and> CHR '' '' \<notin> set scheme \<and>
    t = takeWhile (\<lambda>c. c \<noteq> CHR '' '') rest \<longrightarrow>
      validateToken ev now h =
        (if t = [] then Responded (res 401 (ErrorJson ''Invalid token format''))
         else case jwt_verify t (JWT_SECRET ev) now of
                Inl err \<Rightarrow>
                  Responded (res 401 (ErrorJson (if err = TokenExpiredError
                                                 then ''Token expired'' else ''Invalid token'')))
              | Inr p \<Rightarrow> Next \<lparr>userId = userId p, email = email p\<rparr>))"
proof (intro conjI impI)
  assume "falsy h"
  then show "validateToken ev now h = Responded (res 401 (ErrorJson ''Access token required''))"
    by (simp add: validateToken_def)
next
  assume "h = Some s \<and> s \<noteq> [] \<and> CHR '' '' \<notin> set s"
  then show "validateToken ev now h = Responded (res 401 (ErrorJson ''Invalid token format''))"
    by (simp add: validateToken_no_space)
next
  assume "h = Some (scheme @ CHR '' '' # rest) \<and> CHR '' '' \<notin> set scheme \<and>
          t = takeWhile (\<lambda>c. c \<noteq> CHR '' '') rest"
  then show "validateToken ev now h =
        (if t = [] then Responded (res 401 (ErrorJson ''Invalid token format''))
         else case jwt_verify t (JWT_SECRET ev) now of
                Inl err \<Rightarrow>
                  Responded (res 401 (ErrorJson (if err = TokenExpiredError
                                                 then ''Token expired'' else ''Invalid token'')))
              | Inr p \<Rightarrow> Next \<lparr>userId = userId p, email = email p\<rparr>)"
    using validateToken_pieces [of scheme ev now rest] by blast
qed

lemma A1_no_space: "CHR '' '' \<notin> set A1"
  by (simp add: A1_def generateAccessToken_def jwt_sign_no_space)

lemma R1_no_space: "CHR '' '' \<notin> set R1"
  by (simp add: R1_def generateRefreshToken_def jwt_sign_no_space)

lemma verify_A1:
  "jwt_verify A1 (JWT_SECRET example_env) now =
     (if 900 \<le> now then Inl TokenExpiredError
      else Inr \<lparr>userId = 42, email = ''a@x.com'', iat = 0, exp = 900\<rparr>)"
  by (simp add: A1_def generateAccessToken_def jwt_verify_sign example_env_def)

lemma verify_R1_as_access:
  "jwt_verify R1 (JWT_SECRET example_env) now = Inl JsonWebTokenError"
  by (simp add: R1_def generateRefreshToken_def jwt_verify_sign example_env_def)

text \<open>
  No header, a lone word, a word and a space, the access token of subject 42 in time
  and at its expiry, and the refresh token in its place.
\<close>

theorem guard_outcomes_witness:
  "validateToken example_env 60 None =
     Responded (res 401 (ErrorJson ''Access token required'')) \<and>
   validateToken example_env 60 (Some ''Bearer'') =
     Responded (res 401 (ErrorJson ''Invalid token format'')) \<and>
   validateToken example_env 60 (Some ''Bearer '') =
     Responded (res 401 (ErrorJson ''Invalid token format'')) \<and>
   validateToken example_env 60 (Some (''Bearer '' @ A1)) =
     Next \<lparr>userId = 42, email = ''a@x.com''\<rparr> \<and>
   validateToken example_env 900 (Some (''Bearer '' @ A1)) =
     Responded (res 401 (ErrorJson ''Token expired'')) \<and>
   validateToken example_env 60 (Some (''Bearer '' @ R1)) =
     Responded (res 401 (ErrorJson ''Invalid token''))"
proof -
  have 1: "validateToken example_env 60 None =
     Responded (res 401 (ErrorJson ''Access token required''))"
    using guard_outcomes [of None example_env 60] by (simp add: falsy_def)
  have 2: "validateToken example_env 60 (Some ''Bearer'') =
     Responded (res 401 (ErrorJson ''Invalid token format''))"
    using guard_outcomes [of "Some ''Bearer''" example_env 60 "''Bearer''"] by simp
  have 3: "validateToken example_env 60 (Some ''Bearer '') =
     Responded (res 401 (ErrorJson ''Invalid token format''))"
    using guard_outcomes [of "Some ''Bearer ''" example_env 60 _ "''Bearer''" "[]" "[]"] by simp
  have 4: "validateToken example_env 60 (Some (''Bearer '' @ A1)) =
     Next \<lparr>userId = 42, email = ''a@x.com''\<rparr>"
    using guard_outcomes [of "Some (''Bearer '' @ A1)" example_env 60 _ "''Bearer''" A1 A1]
    by (simp add: takeWhile_all A1_no_space A1_nonempty verify_A1)
  have 5: "validateToken example_env 900 (Some (''Bearer '' @ A1)) =
     Responded (res 401 (ErrorJson ''Token expired''))"
    using guard_outcomes [of "Some (''Bearer '' @ A1)" example_env 900 _ "''Bearer''" A1 A1]
    by (simp add: takeWhile_all A1_no_space A1_nonempty verify_A1)
  have 6: "validateToken example_env 60 (Some (''Bearer '' @ R1)) =
     Responded (res 401 (ErrorJson ''Invalid token''))"
    using guard_outcomes [of "Some (''Bearer '' @ R1)" example_env 60 _ "''Bearer''" R1 R1]
    by (simp add: takeWhile_all R1_no_space R1_nonempty verify_R1_as_access)
  from 1 2 3 4 5 6 show ?thesis by simp
qed

text \<open>
  The claim as written fails: a header that is not of the shape \<^verbatim>\<open>Bearer <token>\<close> is
  not rejected when its second word is a good access token.
\<close>

theorem guard_scheme_counterexample:
  "take 7 (''Basic '' @ A1) \<noteq> ''Bearer '' \<and>
   validateToken example_env 60 (Some (''Basic '' @ A1)) =
     Next \<lparr>userId = 42, email = ''a@x.com''\<rparr>"
proof -
  have "validateToken example_env 60 (Some (''Basic'' @ CHR '' '' # A1)) =
     Next \<lparr>userId = 42, email = ''a@x.com''\<rparr>"
    using validateToken_pieces [of "''Basic''" example_env 60 A1]
    by (simp add: takeWhile_all A1_no_space A1_nonempty verify_A1)
  then show ?thesis by simp
qed

subsection \<open>Issuance when the insert of the refresh token fails\<close>

lemma login_200:
  assumes "status (fst (login bc ev now fault d b)) = 200"
  shows "\<not> falsy (b ''email'') \<and> \<not> falsy (b ''password'') \<and> \<not> fault 0 \<and> \<not> fault 1 \<and>
         (\<exists>user others. select_users d (the (b ''email'')) = user # others \<and>
            bcrypt_compare bc (the (b ''password'')) (u_password user) \<and>
            login bc ev now fault d b =
              (res 200 (SessionJson ''Login successful'' (user_json user)
                          (generateAccessToken ev now (u_id user) (u_email user))
                          (generateRefreshToken ev now (u_id user) (u_email user))),
               insert_token d (u_id user)
                 (generateRefreshToken ev now (u_id user) (u_email user))))"
  using assms
  by (auto simp: login_def Let_def res_def internal_error_def pool_query_def
        split: if_splits list.splits)

lemma signup_201:
  assumes "status (fst (signup bc ev now fault d b)) = 201"
  shows "\<not> falsy (b ''email'') \<and> \<not> falsy (b ''password'') \<and> \<not> falsy (b ''firstName'') \<and>
         \<not> falsy (b ''lastName'') \<and> \<not> fault 0 \<and> \<not> fault 1 \<and> \<not> fault 2 \<and>
         select_users d (the (b ''email'')) = [] \<and>
         (\<exists>user d1. insert_user d (the (b ''email'')) (bcrypt_hash bc (the (b ''password'')) 10)
                       (the (b ''firstName'')) (the (b ''lastName'')) = (user, d1) \<and>
            signup bc ev now fault d b =
              (res 201 (SessionJson ''User created successfully'' (user_json user)
                          (generateAccessToken ev now (u_id user) (u_email user))
                          (generateRefreshToken ev now (u_id user) (u_email user))),
               insert_token d1 (u_id user)
                 (generateRefreshToken ev now (u_id user) (u_email user))))"
  using assms
  by (auto simp: signup_def Let_def res_def internal_error_def pool_query_def
        split: if_splits prod.splits)

lemma login_insert_fails:
  assumes "fault 1" and "status (fst (login bc ev now (fault(1 := False)) d b)) = 200"
  shows "login bc ev now fault d b = (res 500 (ErrorJson ''Internal server error''), d)"
proof -
  from login_200 [OF assms(2)] assms(1) show ?thesis
    by (auto simp: login_def Let_def pool_query_def internal_error_def)
qed

lemma signup_insert_fails:
  assumes "fault 2" and "status (fst (signup bc ev now (fault(2 := False)) d b)) = 201"
  shows "signup bc ev now fault d b =
           (res 500 (ErrorJson ''Internal server error''),
            snd (insert_user d (the (b ''email'')) (bcrypt_hash bc (the (b ''password'')) 10)
                   (the (b ''firstName'')) (the (b ''lastName''))))"
proof -
  from signup_201 [OF assms(2)] assms(1) show ?thesis
    by (auto simp: signup_def Let_def pool_query_def internal_error_def)
qed

lemma login_fault_no_tokens:
  "fault 1 \<Longrightarrow> \<exists>msg. json (fst (login bc ev now fault d b)) = ErrorJson msg"
  by (auto simp: login_def Let_def pool_query_def internal_error_def res_def split: list.splits)

lemma signup_fault_no_tokens:
  "fault 2 \<Longrightarrow> \<exists>msg. json (fst (signup bc ev now fault d b)) = ErrorJson msg"
  by (auto simp: signup_def Let_def pool_query_def internal_error_def res_def split: prod.splits)

text \<open>
  Claim C6. Take a login or signup request that issues a session when every query is
  answered. If instead the insert into \<^verbatim>\<open>refresh_tokens\<close> rejects (it is the second query
  of login and the third of signup), the handler answers 500 \<^verbatim>\<open>Internal server error\<close>,
  a body without the access token and without the refresh token, and no row has been
  added to \<^verbatim>\<open>refresh_tokens\<close> (signup keeps the row it had inserted into \<^verbatim>\<open>users\<close>).
  Whatever the request, a response built while that insert rejects is an error body.
\<close>

theorem persistence_failure:
  "(fault 1 \<and> status (fst (login bc ev now (fault(1 := False)) d b)) = 200 \<longrightarrow>
      login bc ev now fault d b = (res 500 (ErrorJson ''Internal server error''), d)) \<and>
   (fault 2 \<and> status (fst (signup bc ev now (fault(2 := False)) d b)) = 201 \<longrightarrow>
      fst (signup bc ev now fault d b) = res 500 (ErrorJson ''Internal server error'') \<and>
      refresh_tokens (snd (signup bc ev now fault d b)) = refresh_tokens d) \<and>
   (fault 1 \<longrightarrow> (\<exists>msg. json (fst (login bc ev now fault d b)) = ErrorJson msg)) \<and>
   (fault 2 \<longrightarrow> (\<exists>msg. json (fst (signup bc ev now fault d b)) = ErrorJson msg))"
proof (intro conjI impI)
  assume "fault 1 \<and> status (fst (login bc ev now (fault(1 := False)) d b)) = 200"
  then show "login bc ev now fault d b = (res 500 (ErrorJson ''Internal server error''), d)"
    by (simp add: login_insert_fails)
next
  assume a: "fault 2 \<and> status (fst (signup bc ev now (fault(2 := False)) d b)) = 201"
  then have s: "signup bc ev now fault d b =
           (res 500 (ErrorJson ''Internal server error''),
            snd (insert_user d (the (b ''email'')) (bcrypt_hash bc (the (b ''password'')) 10)
                   (the (b ''firstName'')) (the (b ''lastName''))))"
    by (simp add: signup_insert_fails)
  then show "fst (signup bc ev now fault d b) = res 500 (ErrorJson ''Internal server error'')"
    by simp
  from s show "refresh_tokens (snd (signup bc ev now fault d b)) = refresh_tokens d"
    by (simp add: insert_user_def Let_def)
next
  assume "fault 1"
  then show "\<exists>msg. json (fst (login bc ev now fault d b)) = ErrorJson msg"
    by (rule login_fault_no_tokens)
next
  assume "fault 2"
  then show "\<exists>msg. json (fst (signup bc ev now fault d b)) = ErrorJson msg"
    by (rule signup_fault_no_tokens)
qed

text \<open>
  Subject 42 logs in and a new subject signs up while the insert of the refresh token
  rejects; without the fault both requests issue a session.
\<close>

lemma example_login_body:
  "login example_bcrypt example_env 0 fault example_db login_body =
     (if fault 0 \<or> fault 1 then (res 500 (ErrorJson ''Internal server error''), example_db)
      else (res 200 (SessionJson ''Login successful''
                       (UserView 42 ''a@x.com'' ''Alice'' ''Doe'') A1 R1),
            insert_token example_db 42 R1))"
  by (simp add: login_def login_body_def falsy_def pool_query_def select_users_def example_db_def
        alice_def example_bcrypt_def user_json_def A1_def R1_def Let_def internal_error_def)

lemma example_signup_body:
  "\<not> fault 0 \<Longrightarrow> \<not> fault 1 \<Longrightarrow>
   signup example_bcrypt example_env 0 fault example_db signup_body =
     (if fault 2
      then (res 500 (ErrorJson ''Internal server error''),
            example_db\<lparr>users := [alice, bob], users_id_seq := 44\<rparr>)
      else (res 201 (SessionJson ''User created successfully''
                       (UserView 43 ''b@x.com'' ''Bob'' ''Roe'')
                       (generateAccessToken example_env 0 43 ''b@x.com'')
                       (generateRefreshToken example_env 0 43 ''b@x.com'')),
            insert_token (example_db\<lparr>users := [alice, bob], users_id_seq := 44\<rparr>) 43
              (generateRefreshToken example_env 0 43 ''b@x.com'')))"
  by (simp add: signup_def signup_body_def falsy_def pool_query_def select_users_def
        example_db_def alice_def bob_def example_bcrypt_def user_json_def Let_def
        internal_error_def insert_user_def)

theorem persistence_failure_witness:
  "fault_at 1 1 \<and>
   status (fst (login example_bcrypt example_env 0 ((fault_at 1)(1 := False))
                  example_db login_body)) = 200 \<and>
   login example_bcrypt example_env 0 (fault_at 1) example_db login_body =
     (res 500 (ErrorJson ''Internal server error''), example_db) \<and>
   fault_at 2 2 \<and>
   status (fst (signup example_bcrypt example_env 0 ((fault_at 2)(2 := False))
                  example_db signup_body)) = 201 \<and>
   fst (signup example_bcrypt example_env 0 (fault_at 2) example_db signup_body) =
     res 500 (ErrorJson ''Internal server error'') \<and>
   refresh_tokens (snd (signup example_bcrypt example_env 0 (fault_at 2) example_db signup_body)) =
     refresh_tokens example_db"
proof -
  have l: "status (fst (login example_bcrypt example_env 0 ((fault_at 1)(1 := False))
                  example_db login_body)) = 200"
    by (simp add: example_login_body fault_at_def res_def)
  have s: "status (fst (signup example_bcrypt example_env 0 ((fault_at 2)(2 := False))
                  example_db signup_body)) = 201"
    by (simp add: example_signup_body fault_at_def res_def)
  have f: "fault_at 1 1" "fault_at 2 2" by (simp_all add: fault_at_def)
  from persistence_failure [of "fault_at 1" example_bcrypt example_env 0 example_db login_body]
    persistence_failure [of "fault_at 2" example_bcrypt example_env 0 example_db signup_body]
    l s f
  show ?thesis by blast
qed

subsection \<open>The two secrets\<close>



subsection \<open>Logout\<close>

lemma delete_tokens_absent:
  "t \<notin> token ` set (refresh_tokens d) \<Longrightarrow> delete_tokens d t = d"
proof -
  assume "t \<notin> token ` set (refresh_tokens d)"
  then have "filter (\<lambda>r. token r \<noteq> t) (refresh_tokens d) = refresh_tokens d"
    by (auto simp: filter_id_conv)
  then show ?thesis by (simp add: delete_tokens_def)
qed

lemma delete_tokens_idem: "delete_tokens (delete_tokens d t) t = delete_tokens d t"
  by (simp add: delete_tokens_def)

lemma logout_present:
  assumes "b ''refreshToken'' = Some t" and "t \<noteq> []" and "\<not> fault 0"
  shows "logout fault d b = (res 200 (MessageJson ''Logout successful''), delete_tokens d t)"
  using assms by (simp add: logout_def Let_def falsy_def pool_query_def)

text \<open>
  Claim C8, as the code has it. For every non-empty refresh-token value, verified or
  not, issued or not, logout answers 200 \<^verbatim>\<open>Logout successful\<close> as long as its query is
  answered, and leaves \<^verbatim>\<open>refresh_tokens\<close> without the rows of that value. A value with
  no row changes nothing and is no error; a second logout with the same value answers
  200 again and changes nothing more. Neither a secret nor the clock is an argument of
  \<open>logout\<close>: the value is never verified. An empty or missing value is answered 400
  before any query.
\<close>

theorem logout_outcomes:
  "(b ''refreshToken'' = Some t \<and> t \<noteq> [] \<and> \<not> fault 0 \<longrightarrow>
      logout fault d b = (res 200 (MessageJson ''Logout successful''), delete_tokens d t) \<and>
      logout fault (delete_tokens d t) b =
        (res 200 (MessageJson ''Logout successful''), delete_tokens d t) \<and>
      (t \<notin> token ` set (refresh_tokens d) \<longrightarrow> delete_tokens d t = d)) \<and>
   (falsy (b ''refreshToken'') \<longrightarrow>
      logout fault d b = (res 400 (ErrorJson ''Refresh token required''), d))"
proof (intro conjI impI)
  assume a: "b ''refreshToken'' = Some t \<and> t \<noteq> [] \<and> \<not> fault 0"
  then show "logout fault d b = (res 200 (MessageJson ''Logout successful''), delete_tokens d t)"
    by (simp add: logout_present)
  from a have "logout fault (delete_tokens d t) b =
      (res 200 (MessageJson ''Logout successful''), delete_tokens (delete_tokens d t) t)"
    by (simp add: logout_present)
  then show "logout fault (delete_tokens d t) b =
      (res 200 (MessageJson ''Logout successful''), delete_tokens d t)"
    by (simp only: delete_tokens_idem)
  assume "t \<notin> token ` set (refresh_tokens d)"
  then show "delete_tokens d t = d"
    by (rule delete_tokens_absent)
next
  assume "falsy (b ''refreshToken'')"
  then show "logout fault d b = (res 400 (ErrorJson ''Refresh token required''), d)"
    by (simp add: logout_def)
qed

text \<open>
  A value that is no token at all and has no row; the refresh token of subject 42,
  once and then again; and the empty value.
\<close>

theorem logout_outcomes_witness:
  "logout no_fault example_db [''refreshToken'' \<mapsto> ''not a jwt''] =
     (res 200 (MessageJson ''Logout successful''), example_db) \<and>
   logout no_fault example_db [''refreshToken'' \<mapsto> R1] =
     (res 200 (MessageJson ''Logout successful''), example_db\<lparr>refresh_tokens := []\<rparr>) \<and>
   logout no_fault (example_db\<lparr>refresh_tokens := []\<rparr>) [''refreshToken'' \<mapsto> R1] =
     (res 200 (MessageJson ''Logout successful''), example_db\<lparr>refresh_tokens := []\<rparr>) \<and>
   logout no_fault example_db [''refreshToken'' \<mapsto> ''''] =
     (res 400 (ErrorJson ''Refresh token required''), example_db)"
proof -
  have garbage: "''not a jwt'' \<notin> token ` set (refresh_tokens example_db)"
  proof -
    have "CHR '' '' \<in> set ''not a jwt''" by simp
    with R1_no_space have "''not a jwt'' \<noteq> R1" by metis
    then show ?thesis by (simp add: example_db_def)
  qed
  have del: "delete_tokens example_db R1 = example_db\<lparr>refresh_tokens := []\<rparr>"
    by (simp add: delete_tokens_def example_db_def)
  from logout_outcomes [of "[''refreshToken'' \<mapsto> ''not a jwt'']" "''not a jwt''" no_fault
         example_db]
       logout_outcomes [of "[''refreshToken'' \<mapsto> R1]" R1 no_fault example_db]
       logout_outcomes [of "[''refreshToken'' \<mapsto> '''']" "''''" no_fault example_db]
       garbage del R1_nonempty no_fault_0
  show ?thesis by (simp add: falsy_def)
qed

text \<open>
  The claim as written fails at the empty value: logout answers 400, not success,
  although the query would have been answered.
\<close>

theorem logout_empty_counterexample:
  "\<not> no_fault 0 \<and>
   logout no_fault example_db [''refreshToken'' \<mapsto> ''''] =
     (res 400 (ErrorJson ''Refresh token required''), example_db)"
  by (simp add: logout_def falsy_def no_fault_def)

subsection \<open>Failed logins\<close>

lemma login_no_subject:
  assumes "\<not> falsy (b ''email'')" and "\<not> falsy (b ''password'')" and "\<not> fault 0"
      and "select_users d (the (b ''email'')) = []"
  shows "login bc ev now fault d b = (res 401 (ErrorJson ''Invalid credentials''), d)"
  using assms by (simp add: login_def pool_query_def)

lemma login_bad_password:
  assumes "\<not> falsy (b ''email'')" and "\<not> falsy (b ''password'')" and "\<not> fault 0"
      and "select_users d (the (b ''email'')) = user # others"
      and "\<not> bcrypt_compare bc (the (b ''password'')) (u_password user)"
  shows "login bc ev now fault d b = (res 401 (ErrorJson ''Invalid credentials''), d)"
  using assms by (simp add: login_def pool_query_def)

text \<open>
  Claim C9. Take any two login attempts with both fields present and the query
  answered, on any tables and at any times: one whose email matches no row of
  \<^verbatim>\<open>users\<close>, and one whose email matches a row but whose password bcrypt does not
  accept for it. Their responses are equal, status and body: 401
  \<^verbatim>\<open>Invalid credentials\<close>, and each leaves its tables as they were.
\<close>

theorem login_failures_alike:
  assumes "\<not> falsy (b1 ''email'')" and "\<not> falsy (b1 ''password'')" and "\<not> fault1 0"
      and "select_users d1 (the (b1 ''email'')) = []"
      and "\<not> falsy (b2 ''email'')" and "\<not> falsy (b2 ''password'')" and "\<not> fault2 0"
      and "select_users d2 (the (b2 ''email'')) = user # others"
      and "\<not> bcrypt_compare bc (the (b2 ''password'')) (u_password user)"
  shows "fst (login bc ev now1 fault1 d1 b1) = fst (login bc ev now2 fault2 d2 b2) \<and>
         login bc ev now1 fault1 d1 b1 = (res 401 (ErrorJson ''Invalid credentials''), d1) \<and>
         login bc ev now2 fault2 d2 b2 = (res 401 (ErrorJson ''Invalid credentials''), d2)"
proof -
  have 1: "login bc ev now1 fault1 d1 b1 = (res 401 (ErrorJson ''Invalid credentials''), d1)"
    using assms(1-4) by (rule login_no_subject)
  have 2: "login bc ev now2 fault2 d2 b2 = (res 401 (ErrorJson ''Invalid credentials''), d2)"
    using assms(5-9) by (rule login_bad_password)
  from 1 2 show ?thesis by simp
qed

text \<open>An unknown email, and the email of subject 42 with a wrong password.\<close>

theorem login_failures_alike_witness:
  "select_users example_db ''nobody@x.com'' = [] \<and>
   select_users example_db ''a@x.com'' = [alice] \<and>
   \<not> bcrypt_compare example_bcrypt ''guess'' (u_password alice) \<and>
   login example_bcrypt example_env 0 no_fault example_db
       [''email'' \<mapsto> ''nobody@x.com'', ''password'' \<mapsto> ''secret''] =
     (res 401 (ErrorJson ''Invalid credentials''), example_db) \<and>
   login example_bcrypt example_env 0 no_fault example_db
       [''email'' \<mapsto> ''a@x.com'', ''password'' \<mapsto> ''guess''] =
     (res 401 (ErrorJson ''Invalid credentials''), example_db)"
proof -
  let ?b1 = "[''email'' \<mapsto> ''nobody@x.com'', ''password'' \<mapsto> ''secret'']"
  let ?b2 = "[''email'' \<mapsto> ''a@x.com'', ''password'' \<mapsto> ''guess'']"
  have s1: "select_users example_db ''nobody@x.com'' = []"
    and s2: "select_users example_db ''a@x.com'' = [alice]"
    by (simp_all add: select_users_def example_db_def alice_def)
  have c: "\<not> bcrypt_compare example_bcrypt ''guess'' (u_password alice)"
    by (simp add: example_bcrypt_def alice_def)
  have "login example_bcrypt example_env 0 no_fault example_db ?b1 =
          (res 401 (ErrorJson ''Invalid credentials''), example_db) \<and>
        login example_bcrypt example_env 0 no_fault example_db ?b2 =
          (res 401 (ErrorJson ''Invalid credentials''), example_db)"
    using login_failures_alike [where ?b1.0 = ?b1 and ?b2.0 = ?b2 and ?fault1.0 = no_fault
            and ?fault2.0 = no_fault and ?d1.0 = example_db and ?d2.0 = example_db
            and user = alice and others = "[]" and bc = example_bcrypt and ev = example_env
            and ?now1.0 = 0 and ?now2.0 = 0]
          s1 s2 c no_fault_0
    by (simp add: falsy_def)
  with s1 s2 c show ?thesis by simp
qed

subsection \<open>Several sessions of one subject\<close>











end
